theory Spec2Isabelle
  imports Main "HOL-Library.Char_ord" "HOL-Library.List_Lexorder" "HOL-Library.Sublist"
    "HOL-Library.Multiset"
begin

section \<open>The Xcode project tree provider\<close>

text \<open>
  A shallow embedding of \<^verbatim>\<open>utils/xcode-node-provider.ts\<close>. The repository holds several
  revisions of that file. The functions \<^verbatim>\<open>RootNode.children\<close>, \<^verbatim>\<open>ProjectNode.children\<close>,
  \<^verbatim>\<open>ProjectNode.path\<close>, \<^verbatim>\<open>GroupNode.path\<close> and \<^verbatim>\<open>FileNode.path\<close> are the same in every
  revision that has them. \<^verbatim>\<open>GroupNode.children\<close> exists in two forms: the two-pass form
  (all groups, then all files) and the later single-pass form with build files, which is
  the one the sorting revision keeps. Both are modelled; the sorting policy
  (\<^verbatim>\<open>resolveChildren\<close>, \<^verbatim>\<open>sortKey\<close>) and \<^verbatim>\<open>BuildFileNode\<close> are taken from the revisions
  that have them.
\<close>

subsection \<open>The project model handed over by the pbxproj reader\<close>

text \<open>
  The reader (\<^verbatim>\<open>xcode-proj\<close>) is an external library. What the provider reads from it
  is kept as data: each section is the list of its entries in \<^verbatim>\<open>Object.keys\<close> order, and
  a lookup \<^verbatim>\<open>section[key]\<close> is \<^const>\<open>map_of\<close> (absent is \<^verbatim>\<open>undefined\<close>). Identifiers are
  JavaScript strings.
\<close>

type_synonym ident = string

record pbx_child =
  child_value :: ident
  child_comment :: string

record PBXGroup =
  group_children :: "pbx_child list"
  group_path :: "string option"

record PBXFileReference =
  ref_path :: string

record PBXBuildFile =
  fileRef :: ident
  fileRef_comment :: string

record PBXProject =
  mainGroup :: ident

record project =
  rootObject :: ident
  pbxProjectSection :: "(ident \<times> PBXProject) list"
  pbxGroupSection :: "(ident \<times> PBXGroup) list"
  pbxFileReferenceSection :: "(ident \<times> PBXFileReference) list"
  pbxBuildFileSection :: "(ident \<times> PBXBuildFile) list"

definition getPBXGroupByKey :: "project \<Rightarrow> ident \<Rightarrow> PBXGroup option" where
  "getPBXGroupByKey proj key = map_of (pbxGroupSection proj) key"

subsection \<open>Errors, the platform, the console\<close>

datatype error = FilesystemError string | ParseError string | TypeError string

text \<open>
  \<open>readdirSync\<close> is \<^verbatim>\<open>fs.readdirSync\<close>, \<open>parseSync\<close> is \<^verbatim>\<open>xcode.project(p).parseSync()\<close>;
  \<open>Inl\<close> is the exception either one throws. \<open>localeCompare\<close> is
  \<^verbatim>\<open>String.prototype.localeCompare\<close>: the collation of the host's locale, negative, zero or
  positive. It belongs to the JavaScript platform and is left open: nothing is assumed of
  it but what a theorem states.
\<close>

record platform =
  readdirSync :: "string \<Rightarrow> error + string list"
  parseSync :: "string \<Rightarrow> error + project"
  localeCompare :: "string \<Rightarrow> string \<Rightarrow> int"

datatype log_entry = Warn_unknown_child pbx_child

type_synonym console = "log_entry list"

record config =
  sortAlphabetically :: bool
  directoriesFirst :: bool

subsection \<open>Nodes\<close>

datatype XcodeNode =
    RootNode string
  | ProjectNode string XcodeNode
  | GroupNode project pbx_child XcodeNode
  | BuildFileNode project PBXBuildFile XcodeNode
  | FileNode project pbx_child XcodeNode

datatype 'a promise = Resolved 'a | Rejected error

text \<open>
  What a call of \<^verbatim>\<open>children()\<close> or \<^verbatim>\<open>resolveChildren(node)\<close> gives its caller: an
  exception, an array, a promise (the executor of \<^verbatim>\<open>new Promise\<close> runs at once, and an
  exception inside it rejects the promise), or \<^verbatim>\<open>null\<close>.
\<close>

datatype outcome =
    Threw error
  | Array "XcodeNode list"
  | Thenable "XcodeNode list promise"
  | Null

subsection \<open>\<^verbatim>\<open>path.join\<close> (POSIX)\<close>

text \<open>
  Node's \<^verbatim>\<open>path.join\<close>: the non-empty arguments are joined with a slash and the result
  is normalised (empty and \<^verbatim>\<open>.\<close> segments dropped, \<^verbatim>\<open>..\<close> resolved, a trailing slash
  kept, the empty path turned into \<^verbatim>\<open>.\<close>).
\<close>

fun split_slash :: "string \<Rightarrow> string list" where
  "split_slash [] = [[]]"
| "split_slash (c # cs) =
     (if c = CHR ''/'' then [] # split_slash cs
      else (case split_slash cs of [] \<Rightarrow> [[c]] | p # ps \<Rightarrow> (c # p) # ps))"

fun join_slash :: "string list \<Rightarrow> string" where
  "join_slash [] = []"
| "join_slash [p] = p"
| "join_slash (p # q # ps) = p @ ''/'' @ join_slash (q # ps)"

fun normalizeArray :: "string list \<Rightarrow> bool \<Rightarrow> string list \<Rightarrow> string list" where
  "normalizeArray [] allowAboveRoot res = res"
| "normalizeArray (p # parts) allowAboveRoot res =
     (if p = [] \<or> p = ''.'' then normalizeArray parts allowAboveRoot res
      else if p = ''..'' then
        (if res \<noteq> [] \<and> last res \<noteq> ''..'' then normalizeArray parts allowAboveRoot (butlast res)
         else if allowAboveRoot then normalizeArray parts allowAboveRoot (res @ [''..''])
         else normalizeArray parts allowAboveRoot res)
      else normalizeArray parts allowAboveRoot (res @ [p]))"

definition normalize :: "string \<Rightarrow> string" where
  "normalize p =
     (let isAbsolute = (p \<noteq> [] \<and> hd p = CHR ''/'');
          trailingSlash = (p \<noteq> [] \<and> last p = CHR ''/'');
          p1 = join_slash (normalizeArray (split_slash p) (\<not> isAbsolute) []);
          p2 = (if p1 = [] \<and> \<not> isAbsolute then ''.'' else p1);
          p3 = (if p2 \<noteq> [] \<and> trailingSlash then p2 @ ''/'' else p2)
      in (if isAbsolute then ''/'' else []) @ p3)"

definition path_join :: "string list \<Rightarrow> string" where
  "path_join segments =
     normalize (fold (\<lambda>segment p.
        if segment \<noteq> [] then (if p = [] then segment else p @ ''/'' @ segment) else p)
        segments [])"

subsection \<open>Labels, paths, sort keys\<close>

fun label :: "XcodeNode \<Rightarrow> string" where
  "label (RootNode rootPath) = ''Xcode''"
| "label (ProjectNode file parent) = file"
| "label (GroupNode proj data parent) = child_comment data"
| "label (BuildFileNode proj data parent) = fileRef_comment data"
| "label (FileNode proj data parent) = child_comment data"

fun hasChildren :: "XcodeNode \<Rightarrow> bool" where
  "hasChildren (RootNode rootPath) = True"
| "hasChildren (ProjectNode file parent) = True"
| "hasChildren (GroupNode proj data parent) = True"
| "hasChildren (BuildFileNode proj data parent) = False"
| "hasChildren (FileNode proj data parent) = False"

fun clickCommand :: "XcodeNode \<Rightarrow> string option" where
  "clickCommand (FileNode proj data parent) = Some ''extension.openXcodeFileNode''"
| "clickCommand (BuildFileNode proj data parent) = None"
| "clickCommand n = None"

text \<open>
  \<^verbatim>\<open>ref.path.replace(/(^"|"$)/g, '')\<close>: scanning from the left, a double quote is removed
  when it stands at the start of the string or at its end.
\<close>

fun replace_quotes :: "bool \<Rightarrow> string \<Rightarrow> string" where
  "replace_quotes at_start [] = []"
| "replace_quotes at_start (c # cs) =
     (if c = CHR 0x22 \<and> (at_start \<or> cs = []) then replace_quotes False cs
      else c # replace_quotes False cs)"

text \<open>
  \<^verbatim>\<open>path()\<close>, by class. Reading a property of \<^verbatim>\<open>undefined\<close> (a group or file reference
  that the project does not have) throws a \<^verbatim>\<open>TypeError\<close>.
\<close>

fun path :: "XcodeNode \<Rightarrow> error + string" where
  "path (RootNode rootPath) = Inr rootPath"
| "path (ProjectNode file parent) =
     (case path parent of Inl e \<Rightarrow> Inl e | Inr parentPath \<Rightarrow> Inr (path_join [parentPath]))"
| "path (GroupNode proj data parent) =
     (case path parent of
        Inl e \<Rightarrow> Inl e
      | Inr parentPath \<Rightarrow>
          (case getPBXGroupByKey proj (child_value data) of
             None \<Rightarrow> Inl (TypeError ''path of undefined'')
           | Some g \<Rightarrow>
               (case group_path g of
                  None \<Rightarrow> Inr parentPath
                | Some grouPath \<Rightarrow>
                    if grouPath \<noteq> [] then Inr (path_join [parentPath, grouPath])
                    else Inr parentPath)))"
| "path (BuildFileNode proj data parent) =
     (case path parent of
        Inl e \<Rightarrow> Inl e
      | Inr parentPath \<Rightarrow> Inr (path_join [parentPath, fileRef_comment data]))"
| "path (FileNode proj data parent) =
     (case map_of (pbxFileReferenceSection proj) (child_value data) of
        None \<Rightarrow> Inl (TypeError ''path of undefined'')
      | Some ref \<Rightarrow>
          (case path parent of
             Inl e \<Rightarrow> Inl e
           | Inr parentPath \<Rightarrow> Inr (path_join [parentPath, replace_quotes True (ref_path ref)])))"

fun sortKey :: "config \<Rightarrow> XcodeNode \<Rightarrow> string" where
  "sortKey cfg (GroupNode proj data parent) =
     (if directoriesFirst cfg then ''000'' else ''001'') @ ''-'' @ label (GroupNode proj data parent)"
| "sortKey cfg n = ''001-'' @ label n"

subsection \<open>Children\<close>

text \<open>\<^verbatim>\<open>file.match(/\.xcodeproj$/)\<close>: some position where \<^verbatim>\<open>.xcodeproj\<close> starts and the input ends after it.\<close>

fun match_xcodeproj :: "string \<Rightarrow> bool" where
  "match_xcodeproj [] = False"
| "match_xcodeproj (c # cs) = (c # cs = ''.xcodeproj'' \<or> match_xcodeproj cs)"

definition RootNode_children :: "platform \<Rightarrow> string \<Rightarrow> console \<Rightarrow> outcome \<times> console" where
  "RootNode_children os rootPath con =
     (case readdirSync os rootPath of
        Inl e \<Rightarrow> (Threw e, con)
      | Inr files \<Rightarrow>
          (Array (map (\<lambda>file. ProjectNode file (RootNode rootPath)) (filter match_xcodeproj files)), con))"

fun rootPath_of :: "XcodeNode \<Rightarrow> string option" where
  "rootPath_of (RootNode rootPath) = Some rootPath"
| "rootPath_of n = None"

definition ProjectNode_executor :: "platform \<Rightarrow> string \<Rightarrow> XcodeNode \<Rightarrow> XcodeNode list promise" where
  "ProjectNode_executor os file parent =
     (case rootPath_of parent of
        None \<Rightarrow> Rejected (TypeError ''Path must be a string'')
      | Some rootPath \<Rightarrow>
          (case parseSync os (path_join [rootPath, file, ''project.pbxproj'']) of
             Inl e \<Rightarrow> Rejected e
           | Inr proj \<Rightarrow>
               (case map_of (pbxProjectSection proj) (rootObject proj) of
                  None \<Rightarrow> Rejected (TypeError ''mainGroup of undefined'')
                | Some root \<Rightarrow>
                    (case getPBXGroupByKey proj (mainGroup root) of
                       None \<Rightarrow> Rejected (TypeError ''children of undefined'')
                     | Some g \<Rightarrow>
                         Resolved (map (\<lambda>child. GroupNode proj child (ProjectNode file parent))
                                       (group_children g))))))"

definition ProjectNode_children :: "platform \<Rightarrow> string \<Rightarrow> XcodeNode \<Rightarrow> console \<Rightarrow> outcome \<times> console" where
  "ProjectNode_children os file parent con = (Thenable (ProjectNode_executor os file parent), con)"

text \<open>
  The build-file lookup of the single-pass \<^verbatim>\<open>GroupNode.children\<close>:
  \<^verbatim>\<open>bfileKeys.find((key) => bfileSec[key].fileRef === value)\<close>, then \<^verbatim>\<open>bfileSec[bfileKey]\<close>.
  When \<^verbatim>\<open>find\<close> gives \<^verbatim>\<open>undefined\<close>, the property read is the one named \<^verbatim>\<open>"undefined"\<close>.
\<close>

definition find_bfileKey :: "(ident \<times> PBXBuildFile) list \<Rightarrow> ident \<Rightarrow> ident option" where
  "find_bfileKey bfileSec v =
     find (\<lambda>key. case map_of bfileSec key of Some b \<Rightarrow> fileRef b = v | None \<Rightarrow> False)
          (map fst bfileSec)"

definition find_bfile :: "(ident \<times> PBXBuildFile) list \<Rightarrow> ident \<Rightarrow> PBXBuildFile option" where
  "find_bfile bfileSec v =
     (case find_bfileKey bfileSec v of
        Some bfileKey \<Rightarrow> map_of bfileSec bfileKey
      | None \<Rightarrow> map_of bfileSec ''undefined'')"

text \<open>The callback of \<^verbatim>\<open>.map\<close>: the node it returns (\<open>None\<close> is \<^verbatim>\<open>undefined\<close>) and the console after it.\<close>

definition child_node :: "project \<Rightarrow> XcodeNode \<Rightarrow> pbx_child \<Rightarrow> console \<Rightarrow> XcodeNode option \<times> console" where
  "child_node proj this child con =
     (if getPBXGroupByKey proj (child_value child) \<noteq> None
        then (Some (GroupNode proj child this), con)
      else if map_of (pbxFileReferenceSection proj) (child_value child) \<noteq> None
        then (Some (FileNode proj child this), con)
      else (case find_bfile (pbxBuildFileSection proj) (child_value child) of
              Some bfile \<Rightarrow> (Some (BuildFileNode proj bfile this), con)
            | None \<Rightarrow> (None, con @ [Warn_unknown_child child])))"

fun map_children ::
  "(pbx_child \<Rightarrow> console \<Rightarrow> XcodeNode option \<times> console) \<Rightarrow> pbx_child list \<Rightarrow> console
     \<Rightarrow> XcodeNode option list \<times> console" where
  "map_children f [] con = ([], con)"
| "map_children f (child # rest) con =
     (case f child con of
        (n, con1) \<Rightarrow> (case map_children f rest con1 of (ns, con2) \<Rightarrow> (n # ns, con2)))"

fun filter_nodes :: "XcodeNode option list \<Rightarrow> XcodeNode list" where
  "filter_nodes [] = []"
| "filter_nodes (None # ns) = filter_nodes ns"
| "filter_nodes (Some n # ns) = n # filter_nodes ns"

definition GroupNode_children :: "project \<Rightarrow> pbx_child \<Rightarrow> XcodeNode \<Rightarrow> console \<Rightarrow> outcome \<times> console" where
  "GroupNode_children proj data parent con =
     (case getPBXGroupByKey proj (child_value data) of
        None \<Rightarrow> (Thenable (Rejected (TypeError ''children of undefined'')), con)
      | Some g \<Rightarrow>
          (case map_children (child_node proj (GroupNode proj data parent)) (group_children g) con of
             (ns, con1) \<Rightarrow> (Thenable (Resolved (filter_nodes ns)), con1)))"

text \<open>The earlier, two-pass \<^verbatim>\<open>GroupNode.children\<close>: the groups among the children, then the files.\<close>

definition GroupNode_children_two_pass :: "project \<Rightarrow> pbx_child \<Rightarrow> XcodeNode \<Rightarrow> console \<Rightarrow> outcome \<times> console" where
  "GroupNode_children_two_pass proj data parent con =
     (case getPBXGroupByKey proj (child_value data) of
        None \<Rightarrow> (Thenable (Rejected (TypeError ''children of undefined'')), con)
      | Some g \<Rightarrow>
          (let groups = map (\<lambda>child. GroupNode proj child (GroupNode proj data parent))
                          (filter (\<lambda>child. getPBXGroupByKey proj (child_value child) \<noteq> None)
                                  (group_children g));
               files = map (\<lambda>child. FileNode proj child (GroupNode proj data parent))
                          (filter (\<lambda>child. map_of (pbxFileReferenceSection proj) (child_value child) \<noteq> None)
                                  (group_children g))
           in (Thenable (Resolved (groups @ files)), con)))"

fun children :: "platform \<Rightarrow> XcodeNode \<Rightarrow> console \<Rightarrow> outcome \<times> console" where
  "children os (RootNode rootPath) con = RootNode_children os rootPath con"
| "children os (ProjectNode file parent) con = ProjectNode_children os file parent con"
| "children os (GroupNode proj data parent) con = GroupNode_children proj data parent con"
| "children os (BuildFileNode proj data parent) con = (Null, con)"
| "children os (FileNode proj data parent) con = (Null, con)"

subsection \<open>The sort policy of \<^verbatim>\<open>resolveChildren\<close>\<close>

text \<open>
  Modelled from the spec: \<^verbatim>\<open>Array.prototype.sort\<close> belongs to the JavaScript platform,
  not to the repository. Following the spec (a stable sort), \<^verbatim>\<open>array.sort(compare)\<close> is
  the stable insertion sort by the comparator: an element goes before the first element
  it does not compare greater than. For a consistent comparator every stable sort gives
  this list.
\<close>

fun insort_cmp :: "('a \<Rightarrow> 'a \<Rightarrow> int) \<Rightarrow> 'a \<Rightarrow> 'a list \<Rightarrow> 'a list" where
  "insort_cmp compare x [] = [x]"
| "insort_cmp compare x (y # ys) =
     (if compare x y \<le> 0 then x # y # ys else y # insort_cmp compare x ys)"

definition sort_cmp :: "('a \<Rightarrow> 'a \<Rightarrow> int) \<Rightarrow> 'a list \<Rightarrow> 'a list" where
  "sort_cmp compare xs = foldr (insort_cmp compare) xs []"

text \<open>\<^verbatim>\<open>children.sort((a, b) => a.sortKey().localeCompare(b.sortKey()))\<close>\<close>

definition sort_children :: "config \<Rightarrow> platform \<Rightarrow> XcodeNode list \<Rightarrow> XcodeNode list" where
  "sort_children cfg os nodes =
     sort_cmp (\<lambda>a b. localeCompare os (sortKey cfg a) (sortKey cfg b)) nodes"

definition resolveChildren :: "config \<Rightarrow> platform \<Rightarrow> XcodeNode \<Rightarrow> console \<Rightarrow> outcome \<times> console" where
  "resolveChildren cfg os node con =
     (case children os node con of
        (Threw e, con1) \<Rightarrow> (Threw e, con1)
      | (children0, con1) \<Rightarrow>
          if sortAlphabetically cfg then
            (case children0 of
               Array nodes \<Rightarrow> (Array (sort_children cfg os nodes), con1)
             | Thenable (Resolved nodes) \<Rightarrow> (Thenable (Resolved (sort_children cfg os nodes)), con1)
             | Thenable (Rejected e) \<Rightarrow> (Thenable (Rejected e), con1)
             | Null \<Rightarrow> (Threw (TypeError ''then of null''), con1)
             | Threw e \<Rightarrow> (Threw e, con1))
          else (children0, con1))"

subsection \<open>Example data\<close>

text \<open>
  A project in the shape of the scenario of the specification: the main group \<open>G0\<close> holds
  the group \<open>G1\<close> (path segment \<^verbatim>\<open>Sources\<close>) and a file; \<open>G1\<close> holds files, a virtual
  group, an identifier that only a build file refers to (\<open>F3\<close>), an identifier that both
  a file reference and a build file know (\<open>F2\<close>), and an identifier nobody knows (\<open>ZZ\<close>).
\<close>

definition demo_project :: project where
  "demo_project =
     \<lparr> rootObject = ''P0'',
       pbxProjectSection = [(''P0'', \<lparr> mainGroup = ''G0'' \<rparr>)],
       pbxGroupSection =
         [(''G0'', \<lparr> group_children =
                      [\<lparr> child_value = ''G1'', child_comment = ''Sources'' \<rparr>,
                       \<lparr> child_value = ''F1'', child_comment = ''Info.plist'' \<rparr>],
                    group_path = None \<rparr>),
          (''G1'', \<lparr> group_children =
                      [\<lparr> child_value = ''F2'', child_comment = ''main.swift'' \<rparr>,
                       \<lparr> child_value = ''G2'', child_comment = ''Assets'' \<rparr>,
                       \<lparr> child_value = ''F3'', child_comment = ''libz.a'' \<rparr>,
                       \<lparr> child_value = ''ZZ'', child_comment = ''ghost'' \<rparr>,
                       \<lparr> child_value = ''F4'', child_comment = ''App.swift'' \<rparr>],
                    group_path = Some ''Sources'' \<rparr>),
          (''G2'', \<lparr> group_children = [], group_path = None \<rparr>)],
       pbxFileReferenceSection =
         [(''F1'', \<lparr> ref_path = ''Info.plist'' \<rparr>),
          (''F2'', \<lparr> ref_path = ''main.swift'' \<rparr>),
          (''F4'', \<lparr> ref_path = ''App.swift'' \<rparr>),
          (''F5'', \<lparr> ref_path = CHR 0x22 # ''Sources/main.swift'' @ [CHR 0x22] \<rparr>)],
       pbxBuildFileSection =
         [(''B1'', \<lparr> fileRef = ''F3'', fileRef_comment = ''libz.a'' \<rparr>),
          (''B2'', \<lparr> fileRef = ''F2'', fileRef_comment = ''main.swift'' \<rparr>)] \<rparr>"

text \<open>
  A collation for the examples: strings are compared without regard to the case of the
  letters A to Z, as locale collations do before anything else, and character by
  character otherwise.
\<close>

definition fold_case :: "char \<Rightarrow> char" where
  "fold_case c =
     (case map_of (zip ''ABCDEFGHIJKLMNOPQRSTUVWXYZ'' ''abcdefghijklmnopqrstuvwxyz'') c of
        None \<Rightarrow> c
      | Some l \<Rightarrow> l)"

definition demo_localeCompare :: "string \<Rightarrow> string \<Rightarrow> int" where
  "demo_localeCompare a b =
     (if map fold_case a < map fold_case b then - 1
      else if map fold_case a = map fold_case b then 0 else 1)"

definition demo_os :: platform where
  "demo_os =
     \<lparr> readdirSync = (\<lambda>p. if p = ''/ws''
                          then Inr [''App.xcodeproj'', ''README.md'', ''Lib.xcodeproj'', ''notes.xcodeproj.bak'']
                          else Inl (FilesystemError ''ENOENT'')),
       parseSync = (\<lambda>p. if p = ''/ws/App.xcodeproj/project.pbxproj'' then Inr demo_project
                        else Inl (ParseError ''ENOENT'')),
       localeCompare = demo_localeCompare \<rparr>"

definition demo_root :: XcodeNode where
  "demo_root = RootNode ''/ws''"

definition demo_app :: XcodeNode where
  "demo_app = ProjectNode ''App.xcodeproj'' demo_root"

definition demo_sources :: XcodeNode where
  "demo_sources = GroupNode demo_project \<lparr> child_value = ''G1'', child_comment = ''Sources'' \<rparr> demo_app"

definition demo_assets :: XcodeNode where
  "demo_assets = GroupNode demo_project \<lparr> child_value = ''G2'', child_comment = ''Assets'' \<rparr> demo_sources"





text \<open>A project in which the identifier \<open>X1\<close> is the key of a group and of a file reference.\<close>

definition both_project :: project where
  "both_project =
     \<lparr> rootObject = ''P0'',
       pbxProjectSection = [(''P0'', \<lparr> mainGroup = ''G0'' \<rparr>)],
       pbxGroupSection =
         [(''G0'', \<lparr> group_children = [\<lparr> child_value = ''X1'', child_comment = ''Both'' \<rparr>],
                    group_path = None \<rparr>),
          (''X1'', \<lparr> group_children = [], group_path = None \<rparr>)],
       pbxFileReferenceSection = [(''X1'', \<lparr> ref_path = ''Both'' \<rparr>)],
       pbxBuildFileSection = [] \<rparr>"

definition both_main :: XcodeNode where
  "both_main = GroupNode both_project \<lparr> child_value = ''G0'', child_comment = ''App'' \<rparr> demo_app"

text \<open>A project whose build-file section has an entry under the key \<^verbatim>\<open>undefined\<close>.\<close>

definition undefined_key_project :: project where
  "undefined_key_project =
     \<lparr> rootObject = ''P0'',
       pbxProjectSection = [(''P0'', \<lparr> mainGroup = ''G0'' \<rparr>)],
       pbxGroupSection =
         [(''G0'', \<lparr> group_children = [\<lparr> child_value = ''ZZ'', child_comment = ''ghost'' \<rparr>],
                    group_path = None \<rparr>)],
       pbxFileReferenceSection = [],
       pbxBuildFileSection =
         [(''undefined'', \<lparr> fileRef = ''F9'', fileRef_comment = ''other.c'' \<rparr>)] \<rparr>"

subsection \<open>Notions used to state the properties\<close>

text \<open>
  The words of the specification for what \<^verbatim>\<open>FileNode.path\<close> does to the stored path:
  one leading and one trailing double quote are taken off. It is compared below with
  \<^const>\<open>replace_quotes\<close>, which follows the regular expression of the source.
\<close>

definition strip_quotes :: "string \<Rightarrow> string" where
  "strip_quotes s =
     (let s1 = (if s \<noteq> [] \<and> hd s = CHR 0x22 then tl s else s)
      in if s1 \<noteq> [] \<and> last s1 = CHR 0x22 then butlast s1 else s1)"

text \<open>
  The nodes one child identifier of a group yields: what the callback of \<^verbatim>\<open>.map\<close> returns
  for it, after \<^verbatim>\<open>.filter((node) => node)\<close>.
\<close>

definition resolved :: "project \<Rightarrow> XcodeNode \<Rightarrow> pbx_child \<Rightarrow> XcodeNode list" where
  "resolved proj this child = filter_nodes [fst (child_node proj this child [])]"

text \<open>
  The nodes one child identifier yields in the two-pass form: a group node when it is the
  key of a group, and a file node when it is the key of a file reference.
\<close>

definition resolved_two_pass :: "project \<Rightarrow> XcodeNode \<Rightarrow> pbx_child \<Rightarrow> XcodeNode list" where
  "resolved_two_pass proj this child =
     (if getPBXGroupByKey proj (child_value child) \<noteq> None then [GroupNode proj child this] else [])
     @ (if map_of (pbxFileReferenceSection proj) (child_value child) \<noteq> None
        then [FileNode proj child this] else [])"




text \<open>
  A path segment that normalisation leaves alone: not empty, without a slash, and neither
  \<^verbatim>\<open>.\<close> nor \<^verbatim>\<open>..\<close>.
\<close>

definition plain_segment :: "string \<Rightarrow> bool" where
  "plain_segment s = (s \<noteq> [] \<and> CHR ''/'' \<notin> set s \<and> s \<noteq> ''.'' \<and> s \<noteq> ''..'')"

text \<open>The same node under a project bundle of another name.\<close>

fun rename_bundle :: "string \<Rightarrow> XcodeNode \<Rightarrow> XcodeNode" where
  "rename_bundle f (RootNode rootPath) = RootNode rootPath"
| "rename_bundle f (ProjectNode file parent) = ProjectNode f (rename_bundle f parent)"
| "rename_bundle f (GroupNode proj data parent) = GroupNode proj data (rename_bundle f parent)"
| "rename_bundle f (BuildFileNode proj data parent) = BuildFileNode proj data (rename_bundle f parent)"
| "rename_bundle f (FileNode proj data parent) = FileNode proj data (rename_bundle f parent)"

section \<open>Properties\<close>

subsection \<open>The root lists the project bundles\<close>

lemma match_xcodeproj_suffix: "match_xcodeproj s = suffix ''.xcodeproj'' s"
  by (induction s) (auto simp: suffix_Cons)

lemma match_xcodeproj_eq: "match_xcodeproj = suffix ''.xcodeproj''"
  by (rule ext) (rule match_xcodeproj_suffix)

text \<open>
  C6. When the root directory can be read, \<^verbatim>\<open>RootNode.children()\<close> returns one
  \<^verbatim>\<open>ProjectNode\<close> for each directory entry whose name ends in \<^verbatim>\<open>.xcodeproj\<close>, in
  directory order, and nothing for any other entry: as many nodes as there are such
  entries, labelled by them, and none at all when there is no such entry.
\<close>

theorem root_children_projects:
  assumes "readdirSync os rootPath = Inr files"
  shows "\<exists>nodes. children os (RootNode rootPath) con = (Array nodes, con)
           \<and> nodes = map (\<lambda>file. ProjectNode file (RootNode rootPath)) (filter (suffix ''.xcodeproj'') files)
           \<and> length nodes = length (filter (suffix ''.xcodeproj'') files)
           \<and> map label nodes = filter (suffix ''.xcodeproj'') files
           \<and> (filter (suffix ''.xcodeproj'') files = [] \<longrightarrow> nodes = [])"
  using assms by (simp add: RootNode_children_def match_xcodeproj_eq comp_def)

theorem root_children_projects_witness:
  "readdirSync demo_os ''/ws'' = Inr [''App.xcodeproj'', ''README.md'', ''Lib.xcodeproj'', ''notes.xcodeproj.bak'']
   \<and> children demo_os (RootNode ''/ws'') [] =
        (Array [ProjectNode ''App.xcodeproj'' (RootNode ''/ws''), ProjectNode ''Lib.xcodeproj'' (RootNode ''/ws'')], [])"
proof -
  have h: "readdirSync demo_os ''/ws'' = Inr [''App.xcodeproj'', ''README.md'', ''Lib.xcodeproj'', ''notes.xcodeproj.bak'']"
    by (simp add: demo_os_def)
  show ?thesis
    using h root_children_projects [OF h, of "[]"] by (auto simp: suffix_def)
qed

subsection \<open>Sorting is switched by one flag\<close>

text \<open>
  C9. With \<^verbatim>\<open>sortAlphabetically\<close> false, \<^verbatim>\<open>resolveChildren\<close> returns what \<^verbatim>\<open>children()\<close>
  returned, in resolution order, whatever \<^verbatim>\<open>directoriesFirst\<close> is: the two runs that
  differ only in \<^verbatim>\<open>directoriesFirst\<close> give the same result.
\<close>

theorem unsorted_ignores_directoriesFirst:
  "resolveChildren \<lparr> sortAlphabetically = False, directoriesFirst = d \<rparr> os node con = children os node con
   \<and> resolveChildren \<lparr> sortAlphabetically = False, directoriesFirst = True \<rparr> os node con
       = resolveChildren \<lparr> sortAlphabetically = False, directoriesFirst = False \<rparr> os node con"
  by (simp add: resolveChildren_def split: prod.splits outcome.splits)

subsection \<open>Failures are not caught\<close>

text \<open>
  C2, as the code has it. Neither \<^verbatim>\<open>RootNode.children\<close> nor \<^verbatim>\<open>ProjectNode.children\<close>
  catches anything, and nothing is logged. When the root directory cannot be read, the
  exception of \<^verbatim>\<open>readdirSync\<close> leaves \<^verbatim>\<open>children()\<close> and \<^verbatim>\<open>resolveChildren\<close>; when the
  pbxproj file is missing or malformed, the promise of \<^verbatim>\<open>ProjectNode.children()\<close> is
  rejected with the exception of \<^verbatim>\<open>parseSync\<close>. No child list, empty or not, is produced,
  and the console is left as it was.
\<close>

theorem errors_reach_the_caller:
  "(readdirSync os rootPath = Inl e \<longrightarrow>
      children os (RootNode rootPath) con = (Threw e, con)
      \<and> resolveChildren cfg os (RootNode rootPath) con = (Threw e, con))
   \<and> (parseSync os (path_join [rootPath, file, ''project.pbxproj'']) = Inl e \<longrightarrow>
      children os (ProjectNode file (RootNode rootPath)) con = (Thenable (Rejected e), con)
      \<and> resolveChildren cfg os (ProjectNode file (RootNode rootPath)) con = (Thenable (Rejected e), con))"
  by (simp add: resolveChildren_def RootNode_children_def ProjectNode_children_def
      ProjectNode_executor_def)

theorem errors_reach_the_caller_witness:
  "readdirSync demo_os ''/nowhere'' = Inl (FilesystemError ''ENOENT'')
   \<and> children demo_os (RootNode ''/nowhere'') [] = (Threw (FilesystemError ''ENOENT''), [])
   \<and> parseSync demo_os (path_join [''/ws'', ''Lib.xcodeproj'', ''project.pbxproj'']) = Inl (ParseError ''ENOENT'')
   \<and> children demo_os (ProjectNode ''Lib.xcodeproj'' (RootNode ''/ws'')) [] = (Thenable (Rejected (ParseError ''ENOENT'')), [])"
proof -
  have h1: "readdirSync demo_os ''/nowhere'' = Inl (FilesystemError ''ENOENT'')"
    by (simp add: demo_os_def)
  have h2: "parseSync demo_os (path_join [''/ws'', ''Lib.xcodeproj'', ''project.pbxproj'']) = Inl (ParseError ''ENOENT'')"
    by (simp add: demo_os_def path_join_def normalize_def)
  from errors_reach_the_caller [of demo_os "''/nowhere''" "FilesystemError ''ENOENT''" "[]" undefined "''x''"] h1
  have a: "children demo_os (RootNode ''/nowhere'') [] = (Threw (FilesystemError ''ENOENT''), [])"
    by blast
  from errors_reach_the_caller [of demo_os "''/ws''" "ParseError ''ENOENT''" "[]" undefined "''Lib.xcodeproj''"] h2
  have b: "children demo_os (ProjectNode ''Lib.xcodeproj'' (RootNode ''/ws'')) [] = (Thenable (Rejected (ParseError ''ENOENT'')), [])"
    by blast
  from h1 h2 a b show ?thesis by blast
qed

text \<open>
  The claim as the specification words it (an empty child list in both cases) fails:
  the directory \<^verbatim>\<open>/nowhere\<close> cannot be read and the host gets the exception; the bundle
  \<^verbatim>\<open>Lib.xcodeproj\<close> has no readable pbxproj file and the host gets a rejected promise.
\<close>

theorem errors_reach_the_caller_counterexample:
  "readdirSync demo_os ''/nowhere'' = Inl (FilesystemError ''ENOENT'')
   \<and> resolveChildren \<lparr> sortAlphabetically = False, directoriesFirst = False \<rparr> demo_os (RootNode ''/nowhere'') []
        = (Threw (FilesystemError ''ENOENT''), [])
   \<and> parseSync demo_os (path_join [''/ws'', ''Lib.xcodeproj'', ''project.pbxproj'']) = Inl (ParseError ''ENOENT'')
   \<and> resolveChildren \<lparr> sortAlphabetically = False, directoriesFirst = False \<rparr> demo_os
        (ProjectNode ''Lib.xcodeproj'' (RootNode ''/ws'')) []
        = (Thenable (Rejected (ParseError ''ENOENT'')), [])"
  by (simp add: resolveChildren_def RootNode_children_def ProjectNode_children_def
      ProjectNode_executor_def demo_os_def path_join_def normalize_def)

subsection \<open>Paths\<close>

lemma demo_groups:
  "getPBXGroupByKey demo_project ''G2'' = Some \<lparr> group_children = [], group_path = None \<rparr>"
  "getPBXGroupByKey demo_project ''G1'' = Some \<lparr> group_children =
                      [\<lparr> child_value = ''F2'', child_comment = ''main.swift'' \<rparr>,
                       \<lparr> child_value = ''G2'', child_comment = ''Assets'' \<rparr>,
                       \<lparr> child_value = ''F3'', child_comment = ''libz.a'' \<rparr>,
                       \<lparr> child_value = ''ZZ'', child_comment = ''ghost'' \<rparr>,
                       \<lparr> child_value = ''F4'', child_comment = ''App.swift'' \<rparr>],
                    group_path = Some ''Sources'' \<rparr>"
  by (simp_all add: demo_project_def getPBXGroupByKey_def)

lemma demo_app_path: "path demo_app = Inr ''/ws''"
  by (simp add: demo_app_def demo_root_def path_join_def normalize_def)

text \<open>
  C5. For a group node whose group record has a non-empty path field, \<^verbatim>\<open>path()\<close> is the
  parent's path joined with that segment; when the field is absent or empty, it is the
  parent's path unchanged.
\<close>

theorem group_path_segment:
  assumes "path parent = Inr parentPath"
      and "getPBXGroupByKey proj (child_value data) = Some g"
  shows "(\<forall>seg. group_path g = Some seg \<and> seg \<noteq> [] \<longrightarrow>
            path (GroupNode proj data parent) = Inr (path_join [parentPath, seg]))
       \<and> (group_path g = None \<or> group_path g = Some [] \<longrightarrow>
            path (GroupNode proj data parent) = Inr parentPath)"
  using assms by auto

theorem group_path_segment_witness:
  "path demo_app = Inr ''/ws'' \<and> path demo_sources = Inr ''/ws/Sources''
   \<and> path demo_assets = Inr ''/ws/Sources''"
proof -
  have j: "path_join [''/ws'', ''Sources''] = ''/ws/Sources''"
    by (simp add: path_join_def normalize_def)
  have g1: "getPBXGroupByKey demo_project (child_value \<lparr> child_value = ''G1'', child_comment = ''Sources'' \<rparr>)
      = Some \<lparr> group_children =
                      [\<lparr> child_value = ''F2'', child_comment = ''main.swift'' \<rparr>,
                       \<lparr> child_value = ''G2'', child_comment = ''Assets'' \<rparr>,
                       \<lparr> child_value = ''F3'', child_comment = ''libz.a'' \<rparr>,
                       \<lparr> child_value = ''ZZ'', child_comment = ''ghost'' \<rparr>,
                       \<lparr> child_value = ''F4'', child_comment = ''App.swift'' \<rparr>],
                    group_path = Some ''Sources'' \<rparr>"
    by (simp add: demo_groups)
  have g2: "getPBXGroupByKey demo_project (child_value \<lparr> child_value = ''G2'', child_comment = ''Assets'' \<rparr>)
      = Some \<lparr> group_children = [], group_path = None \<rparr>"
    by (simp add: demo_groups)
  from group_path_segment [OF demo_app_path g1]
  have s: "path demo_sources = Inr ''/ws/Sources''"
    by (simp add: demo_sources_def j)
  from group_path_segment [OF s g2]
  have a: "path demo_assets = Inr ''/ws/Sources''"
    by (simp add: demo_assets_def)
  from demo_app_path s a show ?thesis by simp
qed

lemma replace_quotes_False:
  "replace_quotes False s = (if s \<noteq> [] \<and> last s = CHR 0x22 then butlast s else s)"
  by (induction s) auto

lemma replace_quotes_strip: "replace_quotes True s = strip_quotes s"
  by (cases s) (auto simp: strip_quotes_def replace_quotes_False)

lemma strip_quotes_surrounded: "strip_quotes (CHR 0x22 # s @ [CHR 0x22]) = s"
  by (simp add: strip_quotes_def)

lemma demo_quoted_ref:
  "map_of (pbxFileReferenceSection demo_project) ''F5''
     = Some \<lparr> ref_path = CHR 0x22 # ''Sources/main.swift'' @ [CHR 0x22] \<rparr>"
  by (simp add: demo_project_def)

text \<open>
  C4. For a file node whose file reference has the path field \<open>p\<close> and whose parent's
  path is \<open>d\<close>, \<^verbatim>\<open>path()\<close> is \<open>d\<close> joined with \<open>p\<close> less one leading and one trailing
  double quote; a path field written in quotes gives \<open>d\<close> joined with what stands
  between them.
\<close>

theorem file_path_strips_quotes:
  assumes "map_of (pbxFileReferenceSection proj) (child_value data) = Some ref"
      and "path parent = Inr d"
  shows "path (FileNode proj data parent) = Inr (path_join [d, strip_quotes (ref_path ref)])
       \<and> (\<forall>s. ref_path ref = CHR 0x22 # s @ [CHR 0x22] \<longrightarrow>
             path (FileNode proj data parent) = Inr (path_join [d, s]))"
proof -
  have general: "path (FileNode proj data parent) = Inr (path_join [d, strip_quotes (ref_path ref)])"
    using assms by (simp add: replace_quotes_strip)
  then show ?thesis
    by (simp add: strip_quotes_surrounded)
qed

theorem file_path_strips_quotes_witness:
  "path (GroupNode demo_project \<lparr> child_value = ''G2'', child_comment = ''Assets'' \<rparr>
           (ProjectNode ''App.xcodeproj'' (RootNode ''/repo/App''))) = Inr ''/repo/App''
   \<and> path (FileNode demo_project \<lparr> child_value = ''F5'', child_comment = ''main.swift'' \<rparr>
        (GroupNode demo_project \<lparr> child_value = ''G2'', child_comment = ''Assets'' \<rparr>
           (ProjectNode ''App.xcodeproj'' (RootNode ''/repo/App''))))
      = Inr ''/repo/App/Sources/main.swift''"
proof -
  let ?g = "GroupNode demo_project \<lparr> child_value = ''G2'', child_comment = ''Assets'' \<rparr>
           (ProjectNode ''App.xcodeproj'' (RootNode ''/repo/App''))"
  have j: "path_join [''/repo/App''] = ''/repo/App''"
    by (simp add: path_join_def normalize_def)
  have p: "path ?g = Inr ''/repo/App''"
    by (simp add: demo_groups j)
  have r: "map_of (pbxFileReferenceSection demo_project)
             (child_value \<lparr> child_value = ''F5'', child_comment = ''main.swift'' \<rparr>)
           = Some \<lparr> ref_path = CHR 0x22 # ''Sources/main.swift'' @ [CHR 0x22] \<rparr>"
    by (simp add: demo_quoted_ref)
  have k: "path_join [''/repo/App'', ''Sources/main.swift''] = ''/repo/App/Sources/main.swift''"
    by (simp add: path_join_def normalize_def)
  from file_path_strips_quotes [OF r p, THEN conjunct2, rule_format, of "''Sources/main.swift''"] have
    "path (FileNode demo_project \<lparr> child_value = ''F5'', child_comment = ''main.swift'' \<rparr> ?g)
       = Inr (path_join [''/repo/App'', ''Sources/main.swift''])"
    by simp
  with p k show ?thesis by simp
qed

subsection \<open>Resolving the children of a group\<close>

lemma child_node_console:
  "child_node proj this child con =
     (fst (child_node proj this child []), con @ snd (child_node proj this child []))"
  by (simp add: child_node_def split: option.splits)

lemma map_children_child_node:
  "map_children (child_node proj this) cs con =
     (map (\<lambda>c. fst (child_node proj this c [])) cs,
      con @ concat (map (\<lambda>c. snd (child_node proj this c [])) cs))"
proof (induction cs arbitrary: con)
  case Nil
  show ?case by simp
next
  case (Cons c cs)
  obtain n l where c: "child_node proj this c [] = (n, l)"
    by (cases "child_node proj this c []")
  have "child_node proj this c con = (n, con @ l)"
    using child_node_console [of proj this c con] c by simp
  then show ?case
    using Cons.IH [of "con @ l"] c by simp
qed

lemma filter_nodes_map:
  "filter_nodes (map (\<lambda>c. fst (child_node proj this c [])) cs) = concat (map (resolved proj this) cs)"
proof (induction cs)
  case Nil
  show ?case by simp
next
  case (Cons c cs)
  then show ?case
    by (cases "fst (child_node proj this c [])") (simp_all add: resolved_def)
qed

lemma GroupNode_children_resolved:
  assumes "getPBXGroupByKey proj (child_value data) = Some g"
  shows "GroupNode_children proj data parent con =
           (Thenable (Resolved (concat (map (resolved proj (GroupNode proj data parent)) (group_children g)))),
            con @ concat (map (\<lambda>c. snd (child_node proj (GroupNode proj data parent) c [])) (group_children g)))"
  using assms by (simp add: GroupNode_children_def map_children_child_node filter_nodes_map)

lemma find_skip:
  "\<forall>x\<in>set xs. \<not> P x \<Longrightarrow> P y \<Longrightarrow> find P (xs @ y # ys) = Some y"
  by (induction xs) auto

lemma find_bfile_first:
  assumes d: "distinct (map fst sec)"
      and s: "sec = pre @ (key, b) # post"
      and m: "fileRef b = X"
      and n: "\<forall>e\<in>set pre. fileRef (snd e) \<noteq> X"
  shows "find_bfile sec X = Some b"
proof -
  let ?P = "\<lambda>key. case map_of sec key of Some b \<Rightarrow> fileRef b = X | None \<Rightarrow> False"
  have look: "map_of sec k = Some v" if "(k, v) \<in> set sec" for k v
    using d that by simp
  have "\<not> ?P k" if "k \<in> set (map fst pre)" for k
  proof -
    from that obtain v where kv: "(k, v) \<in> set pre" by auto
    then have "(k, v) \<in> set sec" using s by simp
    then have "map_of sec k = Some v" by (rule look)
    moreover have "fileRef v \<noteq> X" using n kv by auto
    ultimately show ?thesis by simp
  qed
  moreover have "map_of sec key = Some b" using s by (intro look) simp
  then have "?P key" using m by simp
  ultimately have "find ?P (map fst pre @ key # map fst post) = Some key"
    by (intro find_skip) auto
  then have "find_bfileKey sec X = Some key"
    by (simp add: find_bfileKey_def s)
  then show ?thesis
    using \<open>map_of sec key = Some b\<close> by (simp add: find_bfile_def)
qed

lemma demo_lookups:
  "getPBXGroupByKey demo_project ''F2'' = None"
  "getPBXGroupByKey demo_project ''F3'' = None"
  "map_of (pbxFileReferenceSection demo_project) ''F2'' = Some \<lparr> ref_path = ''main.swift'' \<rparr>"
  "map_of (pbxFileReferenceSection demo_project) ''F3'' = None"
  "pbxBuildFileSection demo_project =
     [(''B1'', \<lparr> fileRef = ''F3'', fileRef_comment = ''libz.a'' \<rparr>),
      (''B2'', \<lparr> fileRef = ''F2'', fileRef_comment = ''main.swift'' \<rparr>)]"
  by (simp_all add: demo_project_def getPBXGroupByKey_def)

lemma demo_children:
  "children demo_os demo_sources [] =
     (Thenable (Resolved
        [FileNode demo_project \<lparr> child_value = ''F2'', child_comment = ''main.swift'' \<rparr> demo_sources,
         GroupNode demo_project \<lparr> child_value = ''G2'', child_comment = ''Assets'' \<rparr> demo_sources,
         BuildFileNode demo_project \<lparr> fileRef = ''F3'', fileRef_comment = ''libz.a'' \<rparr> demo_sources,
         FileNode demo_project \<lparr> child_value = ''F4'', child_comment = ''App.swift'' \<rparr> demo_sources]),
      [Warn_unknown_child \<lparr> child_value = ''ZZ'', child_comment = ''ghost'' \<rparr>])"
  by (simp add: demo_sources_def GroupNode_children_def child_node_def getPBXGroupByKey_def
      demo_project_def find_bfile_def find_bfileKey_def)


lemma two_pass_mset:
  "mset (map G (filter P cs) @ map F (filter Q cs))
     = mset (concat (map (\<lambda>c. (if P c then [G c] else []) @ (if Q c then [F c] else [])) cs))"
  by (induction cs) simp_all

lemma GroupNode_children_two_pass_resolved:
  assumes "getPBXGroupByKey proj (child_value data) = Some g"
  shows "mset (map (\<lambda>child. GroupNode proj child (GroupNode proj data parent))
                 (filter (\<lambda>child. getPBXGroupByKey proj (child_value child) \<noteq> None) (group_children g))
               @ map (\<lambda>child. FileNode proj child (GroupNode proj data parent))
                 (filter (\<lambda>child. map_of (pbxFileReferenceSection proj) (child_value child) \<noteq> None)
                    (group_children g)))
         = mset (concat (map (resolved_two_pass proj (GroupNode proj data parent)) (group_children g)))"
proof -
  have "resolved_two_pass proj (GroupNode proj data parent)
          = (\<lambda>c. (if getPBXGroupByKey proj (child_value c) \<noteq> None
                    then [GroupNode proj c (GroupNode proj data parent)] else [])
                 @ (if map_of (pbxFileReferenceSection proj) (child_value c) \<noteq> None
                    then [FileNode proj c (GroupNode proj data parent)] else []))"
    by (rule ext) (simp add: resolved_two_pass_def)
  then show ?thesis
    by (simp only: two_pass_mset)
qed

lemma both_lookups:
  "getPBXGroupByKey both_project ''G0''
     = Some \<lparr> group_children = [\<lparr> child_value = ''X1'', child_comment = ''Both'' \<rparr>], group_path = None \<rparr>"
  "getPBXGroupByKey both_project ''X1'' = Some \<lparr> group_children = [], group_path = None \<rparr>"
  "map_of (pbxFileReferenceSection both_project) ''X1'' = Some \<lparr> ref_path = ''Both'' \<rparr>"
  "pbxBuildFileSection both_project = []"
  by (simp_all add: both_project_def getPBXGroupByKey_def)

text \<open>
  C1, as the code has it. \<^verbatim>\<open>GroupNode.children\<close> has two forms.

  In the single-pass form (the revisions that know build files), the children of a group
  that exists are the concatenation, in the order of the group's child list, of what each
  identifier yields, and each identifier yields at most one node. The lookups are tried
  in a fixed order: an identifier of a known group yields a group node; an identifier
  that is not a known group but a known file reference yields a file node; otherwise the
  first build file (in key order) whose \<^verbatim>\<open>fileRef\<close> is the identifier yields a build-file
  node. An identifier of a known file reference never yields a build-file node.

  In the two-pass form there is no build-file step: the children are the group nodes of
  the identifiers that are known groups, followed by the file nodes of the identifiers
  that are known file references. No build-file node is among them. An identifier known
  as both yields two nodes, a group node and a file node; any other identifier yields at
  most one.
\<close>

theorem group_child_resolution:
  assumes "getPBXGroupByKey proj (child_value data) = Some g"
  shows "(\<exists>con1. children os (GroupNode proj data parent) con =
            (Thenable (Resolved (concat (map (resolved proj (GroupNode proj data parent)) (group_children g)))), con1))
       \<and> (\<forall>this child.
            length (resolved proj this child) \<le> 1
          \<and> (getPBXGroupByKey proj (child_value child) \<noteq> None \<longrightarrow>
               resolved proj this child = [GroupNode proj child this])
          \<and> (getPBXGroupByKey proj (child_value child) = None
               \<and> map_of (pbxFileReferenceSection proj) (child_value child) \<noteq> None \<longrightarrow>
               resolved proj this child = [FileNode proj child this])
          \<and> (map_of (pbxFileReferenceSection proj) (child_value child) \<noteq> None \<longrightarrow>
               (\<forall>p b q. BuildFileNode p b q \<notin> set (resolved proj this child)))
          \<and> (\<forall>pre key b post.
               getPBXGroupByKey proj (child_value child) = None
               \<and> map_of (pbxFileReferenceSection proj) (child_value child) = None
               \<and> distinct (map fst (pbxBuildFileSection proj))
               \<and> pbxBuildFileSection proj = pre @ (key, b) # post
               \<and> fileRef b = child_value child
               \<and> (\<forall>e\<in>set pre. fileRef (snd e) \<noteq> child_value child) \<longrightarrow>
               resolved proj this child = [BuildFileNode proj b this]))
       \<and> (\<exists>nodes. GroupNode_children_two_pass proj data parent con = (Thenable (Resolved nodes), con)
            \<and> nodes =
                 map (\<lambda>child. GroupNode proj child (GroupNode proj data parent))
                   (filter (\<lambda>child. getPBXGroupByKey proj (child_value child) \<noteq> None) (group_children g))
                 @ map (\<lambda>child. FileNode proj child (GroupNode proj data parent))
                   (filter (\<lambda>child. map_of (pbxFileReferenceSection proj) (child_value child) \<noteq> None)
                      (group_children g))
            \<and> mset nodes
                 = mset (concat (map (resolved_two_pass proj (GroupNode proj data parent)) (group_children g)))
            \<and> (\<forall>p b q. BuildFileNode p b q \<notin> set nodes))
       \<and> (\<forall>this child.
            (getPBXGroupByKey proj (child_value child) \<noteq> None
               \<and> map_of (pbxFileReferenceSection proj) (child_value child) \<noteq> None \<longrightarrow>
               resolved_two_pass proj this child = [GroupNode proj child this, FileNode proj child this])
          \<and> (getPBXGroupByKey proj (child_value child) \<noteq> None
               \<and> map_of (pbxFileReferenceSection proj) (child_value child) = None \<longrightarrow>
               resolved_two_pass proj this child = [GroupNode proj child this])
          \<and> (getPBXGroupByKey proj (child_value child) = None
               \<and> map_of (pbxFileReferenceSection proj) (child_value child) \<noteq> None \<longrightarrow>
               resolved_two_pass proj this child = [FileNode proj child this])
          \<and> (getPBXGroupByKey proj (child_value child) = None
               \<and> map_of (pbxFileReferenceSection proj) (child_value child) = None \<longrightarrow>
               resolved_two_pass proj this child = []))"
proof -
  have one: "\<exists>con1. children os (GroupNode proj data parent) con =
            (Thenable (Resolved (concat (map (resolved proj (GroupNode proj data parent)) (group_children g)))), con1)"
    using GroupNode_children_resolved [OF assms] by simp
  have single: "length (resolved proj this child) \<le> 1
          \<and> (getPBXGroupByKey proj (child_value child) \<noteq> None \<longrightarrow>
               resolved proj this child = [GroupNode proj child this])
          \<and> (getPBXGroupByKey proj (child_value child) = None
               \<and> map_of (pbxFileReferenceSection proj) (child_value child) \<noteq> None \<longrightarrow>
               resolved proj this child = [FileNode proj child this])
          \<and> (map_of (pbxFileReferenceSection proj) (child_value child) \<noteq> None \<longrightarrow>
               (\<forall>p b q. BuildFileNode p b q \<notin> set (resolved proj this child)))
          \<and> (\<forall>pre key b post.
               getPBXGroupByKey proj (child_value child) = None
               \<and> map_of (pbxFileReferenceSection proj) (child_value child) = None
               \<and> distinct (map fst (pbxBuildFileSection proj))
               \<and> pbxBuildFileSection proj = pre @ (key, b) # post
               \<and> fileRef b = child_value child
               \<and> (\<forall>e\<in>set pre. fileRef (snd e) \<noteq> child_value child) \<longrightarrow>
               resolved proj this child = [BuildFileNode proj b this])" for this child
  proof (intro conjI allI)
    show "length (resolved proj this child) \<le> 1"
      by (simp add: resolved_def child_node_def split: option.splits)
    show "getPBXGroupByKey proj (child_value child) \<noteq> None \<longrightarrow>
               resolved proj this child = [GroupNode proj child this]"
      by (simp add: resolved_def child_node_def)
    show "getPBXGroupByKey proj (child_value child) = None
               \<and> map_of (pbxFileReferenceSection proj) (child_value child) \<noteq> None \<longrightarrow>
               resolved proj this child = [FileNode proj child this]"
      by (auto simp add: resolved_def child_node_def)
    show "map_of (pbxFileReferenceSection proj) (child_value child) \<noteq> None \<longrightarrow>
               (\<forall>p b q. BuildFileNode p b q \<notin> set (resolved proj this child))"
      by (auto simp add: resolved_def child_node_def)
    fix pre key b post
    show "getPBXGroupByKey proj (child_value child) = None
               \<and> map_of (pbxFileReferenceSection proj) (child_value child) = None
               \<and> distinct (map fst (pbxBuildFileSection proj))
               \<and> pbxBuildFileSection proj = pre @ (key, b) # post
               \<and> fileRef b = child_value child
               \<and> (\<forall>e\<in>set pre. fileRef (snd e) \<noteq> child_value child) \<longrightarrow>
               resolved proj this child = [BuildFileNode proj b this]"
    proof (intro impI, elim conjE)
      assume h: "getPBXGroupByKey proj (child_value child) = None"
        "map_of (pbxFileReferenceSection proj) (child_value child) = None"
        "distinct (map fst (pbxBuildFileSection proj))"
        "pbxBuildFileSection proj = pre @ (key, b) # post"
        "fileRef b = child_value child"
        "\<forall>e\<in>set pre. fileRef (snd e) \<noteq> child_value child"
      have "find_bfile (pbxBuildFileSection proj) (child_value child) = Some b"
        using h(3) h(4) h(5) h(6) by (rule find_bfile_first)
      then show "resolved proj this child = [BuildFileNode proj b this]"
        using h(1) h(2) by (simp add: resolved_def child_node_def)
    qed
  qed
  let ?nodes = "map (\<lambda>child. GroupNode proj child (GroupNode proj data parent))
                   (filter (\<lambda>child. getPBXGroupByKey proj (child_value child) \<noteq> None) (group_children g))
                 @ map (\<lambda>child. FileNode proj child (GroupNode proj data parent))
                   (filter (\<lambda>child. map_of (pbxFileReferenceSection proj) (child_value child) \<noteq> None)
                      (group_children g))"
  have t1: "GroupNode_children_two_pass proj data parent con = (Thenable (Resolved ?nodes), con)"
    using assms by (simp add: GroupNode_children_two_pass_def)
  have t2: "mset ?nodes
              = mset (concat (map (resolved_two_pass proj (GroupNode proj data parent)) (group_children g)))"
    using assms by (rule GroupNode_children_two_pass_resolved)
  have t3: "\<forall>p b q. BuildFileNode p b q \<notin> set ?nodes"
    by auto
  have two: "\<exists>nodes. GroupNode_children_two_pass proj data parent con = (Thenable (Resolved nodes), con)
            \<and> nodes = ?nodes
            \<and> mset nodes
                 = mset (concat (map (resolved_two_pass proj (GroupNode proj data parent)) (group_children g)))
            \<and> (\<forall>p b q. BuildFileNode p b q \<notin> set nodes)"
    using t1 t2 t3 by (intro exI [of _ ?nodes] conjI) (rule refl | assumption)+
  have per: "(getPBXGroupByKey proj (child_value child) \<noteq> None
               \<and> map_of (pbxFileReferenceSection proj) (child_value child) \<noteq> None \<longrightarrow>
               resolved_two_pass proj this child = [GroupNode proj child this, FileNode proj child this])
          \<and> (getPBXGroupByKey proj (child_value child) \<noteq> None
               \<and> map_of (pbxFileReferenceSection proj) (child_value child) = None \<longrightarrow>
               resolved_two_pass proj this child = [GroupNode proj child this])
          \<and> (getPBXGroupByKey proj (child_value child) = None
               \<and> map_of (pbxFileReferenceSection proj) (child_value child) \<noteq> None \<longrightarrow>
               resolved_two_pass proj this child = [FileNode proj child this])
          \<and> (getPBXGroupByKey proj (child_value child) = None
               \<and> map_of (pbxFileReferenceSection proj) (child_value child) = None \<longrightarrow>
               resolved_two_pass proj this child = [])" for this child
    by (simp add: resolved_two_pass_def)
  show ?thesis
    by (rule conjI, rule one, rule conjI, intro allI, rule single, rule conjI, rule two,
        intro allI, rule per)
qed

theorem group_child_resolution_witness:
  "getPBXGroupByKey demo_project ''G1'' \<noteq> None
   \<and> resolved demo_project demo_sources \<lparr> child_value = ''G2'', child_comment = ''Assets'' \<rparr>
       = [GroupNode demo_project \<lparr> child_value = ''G2'', child_comment = ''Assets'' \<rparr> demo_sources]
   \<and> getPBXGroupByKey demo_project ''F2'' = None
   \<and> map_of (pbxFileReferenceSection demo_project) ''F2'' \<noteq> None
   \<and> fileRef \<lparr> fileRef = ''F2'', fileRef_comment = ''main.swift'' \<rparr> = ''F2''
   \<and> resolved demo_project demo_sources \<lparr> child_value = ''F2'', child_comment = ''main.swift'' \<rparr>
       = [FileNode demo_project \<lparr> child_value = ''F2'', child_comment = ''main.swift'' \<rparr> demo_sources]
   \<and> resolved demo_project demo_sources \<lparr> child_value = ''F3'', child_comment = ''libz.a'' \<rparr>
       = [BuildFileNode demo_project \<lparr> fileRef = ''F3'', fileRef_comment = ''libz.a'' \<rparr> demo_sources]
   \<and> resolved_two_pass demo_project demo_sources \<lparr> child_value = ''F2'', child_comment = ''main.swift'' \<rparr>
       = [FileNode demo_project \<lparr> child_value = ''F2'', child_comment = ''main.swift'' \<rparr> demo_sources]
   \<and> resolved_two_pass demo_project demo_sources \<lparr> child_value = ''F3'', child_comment = ''libz.a'' \<rparr> = []"
proof -
  have g1: "getPBXGroupByKey demo_project
              (child_value \<lparr> child_value = ''G1'', child_comment = ''Sources'' \<rparr>) =
            Some \<lparr> group_children =
                      [\<lparr> child_value = ''F2'', child_comment = ''main.swift'' \<rparr>,
                       \<lparr> child_value = ''G2'', child_comment = ''Assets'' \<rparr>,
                       \<lparr> child_value = ''F3'', child_comment = ''libz.a'' \<rparr>,
                       \<lparr> child_value = ''ZZ'', child_comment = ''ghost'' \<rparr>,
                       \<lparr> child_value = ''F4'', child_comment = ''App.swift'' \<rparr>],
                    group_path = Some ''Sources'' \<rparr>"
    by (simp add: demo_groups)
  note all = group_child_resolution [OF g1, of demo_os demo_app "[]"]
  note each = all [THEN conjunct2, THEN conjunct1, rule_format]
  note two = all [THEN conjunct2, THEN conjunct2, THEN conjunct2, rule_format]
  have a: "resolved demo_project demo_sources \<lparr> child_value = ''G2'', child_comment = ''Assets'' \<rparr>
       = [GroupNode demo_project \<lparr> child_value = ''G2'', child_comment = ''Assets'' \<rparr> demo_sources]"
    using each [of demo_sources "\<lparr> child_value = ''G2'', child_comment = ''Assets'' \<rparr>"]
    by (simp add: demo_groups)
  have b: "resolved demo_project demo_sources \<lparr> child_value = ''F2'', child_comment = ''main.swift'' \<rparr>
       = [FileNode demo_project \<lparr> child_value = ''F2'', child_comment = ''main.swift'' \<rparr> demo_sources]"
    using each [of demo_sources "\<lparr> child_value = ''F2'', child_comment = ''main.swift'' \<rparr>"]
    by (simp add: demo_lookups(1,3))
  note bf = each [of demo_sources "\<lparr> child_value = ''F3'', child_comment = ''libz.a'' \<rparr>",
      THEN conjunct2, THEN conjunct2, THEN conjunct2, THEN conjunct2, rule_format,
      where pre = "[]" and key = "''B1''" and b = "\<lparr> fileRef = ''F3'', fileRef_comment = ''libz.a'' \<rparr>"
        and post = "[(''B2'', \<lparr> fileRef = ''F2'', fileRef_comment = ''main.swift'' \<rparr>)]"]
  have c: "resolved demo_project demo_sources \<lparr> child_value = ''F3'', child_comment = ''libz.a'' \<rparr>
       = [BuildFileNode demo_project \<lparr> fileRef = ''F3'', fileRef_comment = ''libz.a'' \<rparr> demo_sources]"
    by (rule bf) (simp add: demo_lookups)
  have d: "resolved_two_pass demo_project demo_sources \<lparr> child_value = ''F2'', child_comment = ''main.swift'' \<rparr>
       = [FileNode demo_project \<lparr> child_value = ''F2'', child_comment = ''main.swift'' \<rparr> demo_sources]"
    using two [of "\<lparr> child_value = ''F2'', child_comment = ''main.swift'' \<rparr>" demo_sources]
    by (simp add: demo_lookups(1,3))
  have e: "resolved_two_pass demo_project demo_sources \<lparr> child_value = ''F3'', child_comment = ''libz.a'' \<rparr> = []"
    using two [of "\<lparr> child_value = ''F3'', child_comment = ''libz.a'' \<rparr>" demo_sources]
    by (simp add: demo_lookups(2,4))
  from a b c d e show ?thesis
    by (simp add: demo_groups demo_lookups)
qed

text \<open>
  The claim as worded fails at an identifier that is the key of a group and of a file
  reference. It matches a file-reference record, and the single-pass form yields a group
  node for it, not a file node. The two-pass form yields two nodes for it, a group node
  and a file node.
\<close>

theorem group_child_resolution_counterexample:
  "getPBXGroupByKey both_project ''X1'' \<noteq> None
   \<and> map_of (pbxFileReferenceSection both_project) ''X1'' \<noteq> None
   \<and> children demo_os both_main [] =
       (Thenable (Resolved
          [GroupNode both_project \<lparr> child_value = ''X1'', child_comment = ''Both'' \<rparr> both_main]), [])
   \<and> GroupNode_children_two_pass both_project \<lparr> child_value = ''G0'', child_comment = ''App'' \<rparr> demo_app [] =
       (Thenable (Resolved
          [GroupNode both_project \<lparr> child_value = ''X1'', child_comment = ''Both'' \<rparr> both_main,
           FileNode both_project \<lparr> child_value = ''X1'', child_comment = ''Both'' \<rparr> both_main]), [])"
  by (simp add: both_main_def GroupNode_children_def GroupNode_children_two_pass_def child_node_def
      both_lookups)

subsection \<open>Unknown child identifiers\<close>

text \<open>
  C7, where the code departs from it. The identifier \<open>ZZ\<close> is in no group, no file
  reference and no \<^verbatim>\<open>fileRef\<close> of a build file, so \<^verbatim>\<open>find\<close> gives \<^verbatim>\<open>undefined\<close>; the
  read \<^verbatim>\<open>bfileSec[undefined]\<close> then fetches the build file stored under the key
  \<^verbatim>\<open>undefined\<close>, and the identifier is shown as that build file: it is not omitted and
  no warning is logged.
\<close>

theorem unknown_child_with_undefined_key:
  "getPBXGroupByKey undefined_key_project ''ZZ'' = None
   \<and> map_of (pbxFileReferenceSection undefined_key_project) ''ZZ'' = None
   \<and> find_bfileKey (pbxBuildFileSection undefined_key_project) ''ZZ'' = None
   \<and> children demo_os
        (GroupNode undefined_key_project \<lparr> child_value = ''G0'', child_comment = ''App'' \<rparr> demo_app) []
      = (Thenable (Resolved
           [BuildFileNode undefined_key_project \<lparr> fileRef = ''F9'', fileRef_comment = ''other.c'' \<rparr>
              (GroupNode undefined_key_project \<lparr> child_value = ''G0'', child_comment = ''App'' \<rparr> demo_app)]),
         [])"
  by (simp add: undefined_key_project_def GroupNode_children_def child_node_def getPBXGroupByKey_def
      find_bfile_def find_bfileKey_def)

text \<open>
  When the build-file section has no entry under the key \<^verbatim>\<open>undefined\<close>, an identifier
  that no section knows is dropped with a warning, and its siblings resolve as they do
  without it.
\<close>

lemma find_bfile_None:
  assumes "\<forall>e\<in>set sec. fileRef (snd e) \<noteq> X" and "map_of sec ''undefined'' = None"
  shows "find_bfile sec X = None"
proof -
  have "find_bfileKey sec X = None"
    unfolding find_bfileKey_def find_None_iff
  proof (intro notI, elim exE conjE)
    fix k assume k: "k \<in> set (map fst sec)"
      and p: "case map_of sec k of None \<Rightarrow> False | Some b \<Rightarrow> fileRef b = X"
    from p obtain b where b: "map_of sec k = Some b" "fileRef b = X"
      by (cases "map_of sec k") auto
    from b(1) have "(k, b) \<in> set sec" by (rule map_of_SomeD)
    with assms(1) b(2) show False by auto
  qed
  then show ?thesis using assms(2) by (simp add: find_bfile_def)
qed

lemma unknown_child_dropped:
  assumes g: "getPBXGroupByKey proj (child_value data) = Some g"
      and c: "group_children g = before @ child # after"
      and u: "getPBXGroupByKey proj (child_value child) = None"
             "map_of (pbxFileReferenceSection proj) (child_value child) = None"
             "\<forall>e\<in>set (pbxBuildFileSection proj). fileRef (snd e) \<noteq> child_value child"
      and k: "map_of (pbxBuildFileSection proj) ''undefined'' = None"
  shows "\<exists>con1. children os (GroupNode proj data parent) con =
           (Thenable (Resolved (concat (map (resolved proj (GroupNode proj data parent)) before)
                                @ concat (map (resolved proj (GroupNode proj data parent)) after))), con1)
         \<and> Warn_unknown_child child \<in> set con1"
proof -
  have n: "find_bfile (pbxBuildFileSection proj) (child_value child) = None"
    using u(3) k by (rule find_bfile_None)
  have "child_node proj (GroupNode proj data parent) child [] = (None, [Warn_unknown_child child])"
    using u(1,2) n by (simp add: child_node_def)
  then show ?thesis
    using GroupNode_children_resolved [OF g, of parent con] c by (simp add: resolved_def)
qed

subsection \<open>Resolving twice\<close>

text \<open>
  C8. Calling \<^verbatim>\<open>children()\<close> on a group node a second time, in the console state the first
  call left, gives the same outcome as the first call: when both promises resolve, the two
  lists have the same length and pairwise the same \<^verbatim>\<open>label()\<close> and \<^verbatim>\<open>path()\<close>. This holds
  for the single-pass form and for the two-pass form of \<^verbatim>\<open>GroupNode.children\<close>.
\<close>

theorem group_children_repeatable:
  "fst (children os (GroupNode proj data parent) (snd (children os (GroupNode proj data parent) con)))
     = fst (children os (GroupNode proj data parent) con)
   \<and> (\<forall>nodes1 nodes2.
        fst (children os (GroupNode proj data parent) con) = Thenable (Resolved nodes1)
        \<and> fst (children os (GroupNode proj data parent) (snd (children os (GroupNode proj data parent) con)))
            = Thenable (Resolved nodes2)
        \<longrightarrow> length nodes2 = length nodes1
            \<and> list_all2 (\<lambda>a b. label a = label b \<and> path a = path b) nodes1 nodes2)
   \<and> fst (GroupNode_children_two_pass proj data parent (snd (GroupNode_children_two_pass proj data parent con)))
     = fst (GroupNode_children_two_pass proj data parent con)"
proof -
  have indep: "fst (GroupNode_children proj data parent c1) = fst (GroupNode_children proj data parent c2)" for c1 c2
    by (cases "getPBXGroupByKey proj (child_value data)")
       (simp_all add: GroupNode_children_def map_children_child_node)
  have two: "fst (GroupNode_children_two_pass proj data parent c1) = fst (GroupNode_children_two_pass proj data parent c2)" for c1 c2
    by (cases "getPBXGroupByKey proj (child_value data)")
       (simp_all add: GroupNode_children_two_pass_def Let_def)
  have same: "fst (children os (GroupNode proj data parent) (snd (children os (GroupNode proj data parent) con)))
     = fst (children os (GroupNode proj data parent) con)"
    using indep by simp
  have refl: "list_all2 (\<lambda>a b. label a = label b \<and> path a = path b) nodes nodes" for nodes
    by (simp add: list_all2_same)
  show ?thesis
    using same two refl by auto
qed

theorem group_children_repeatable_witness:
  "fst (children demo_os demo_sources []) =
     Thenable (Resolved
        [FileNode demo_project \<lparr> child_value = ''F2'', child_comment = ''main.swift'' \<rparr> demo_sources,
         GroupNode demo_project \<lparr> child_value = ''G2'', child_comment = ''Assets'' \<rparr> demo_sources,
         BuildFileNode demo_project \<lparr> fileRef = ''F3'', fileRef_comment = ''libz.a'' \<rparr> demo_sources,
         FileNode demo_project \<lparr> child_value = ''F4'', child_comment = ''App.swift'' \<rparr> demo_sources])
   \<and> snd (children demo_os demo_sources []) = [Warn_unknown_child \<lparr> child_value = ''ZZ'', child_comment = ''ghost'' \<rparr>]
   \<and> fst (children demo_os demo_sources [Warn_unknown_child \<lparr> child_value = ''ZZ'', child_comment = ''ghost'' \<rparr>])
       = fst (children demo_os demo_sources [])"
  using group_children_repeatable [of demo_os demo_project "\<lparr> child_value = ''G1'', child_comment = ''Sources'' \<rparr>" demo_app "[]"]
    demo_children
  by (simp add: demo_sources_def)

subsection \<open>Sorted children\<close>






















subsection \<open>The project's path and the build file's path\<close>

lemma split_slash_not_Nil: "split_slash s \<noteq> []"
  by (induction s) (auto split: list.splits)

lemma split_slash_plain:
  "CHR ''/'' \<notin> set s \<Longrightarrow> split_slash (s @ t) = (s @ hd (split_slash t)) # tl (split_slash t)"
proof (induction s)
  case Nil
  show ?case using split_slash_not_Nil [of t] by simp
next
  case (Cons c s)
  then show ?case by auto
qed

lemma split_slash_single: "CHR ''/'' \<notin> set s \<Longrightarrow> split_slash s = [s]"
  using split_slash_plain [of s "[]"] by simp

lemma split_join_slash:
  "segs \<noteq> [] \<Longrightarrow> \<forall>s\<in>set segs. CHR ''/'' \<notin> set s \<Longrightarrow> split_slash (join_slash segs) = segs"
proof (induction segs rule: join_slash.induct)
  case 1
  then show ?case by simp
next
  case (2 p)
  then show ?case by (simp add: split_slash_single)
next
  case (3 p q ps)
  then show ?case by (simp add: split_slash_plain)
qed

lemma normalizeArray_plain:
  "\<forall>s\<in>set segs. plain_segment s \<Longrightarrow> normalizeArray segs b res = res @ segs"
  by (induction segs arbitrary: res) (simp_all add: plain_segment_def)

lemma join_slash_Cons_not_Nil: "s \<noteq> [] \<Longrightarrow> join_slash (s # ss) \<noteq> []"
  by (cases ss) simp_all

lemma last_join_slash:
  "segs \<noteq> [] \<Longrightarrow> \<forall>s\<in>set segs. s \<noteq> [] \<Longrightarrow> last (join_slash segs) = last (last segs)"
  by (induction segs rule: join_slash.induct) (simp_all add: join_slash_Cons_not_Nil)

lemma normalize_plain_absolute:
  assumes "\<forall>s\<in>set segs. plain_segment s"
  shows "normalize (''/'' @ join_slash segs) = ''/'' @ join_slash segs"
proof (cases "segs = []")
  case True
  then show ?thesis by (simp add: normalize_def)
next
  case False
  have noslash: "\<forall>s\<in>set segs. CHR ''/'' \<notin> set s" and nonempty: "\<forall>s\<in>set segs. s \<noteq> []"
    using assms by (auto simp: plain_segment_def)
  have sp: "split_slash (''/'' @ join_slash segs) = [] # segs"
    using split_join_slash [OF False noslash] by simp
  have "last segs \<in> set segs" using False by simp
  then have "last (last segs) \<noteq> CHR ''/''"
    using noslash nonempty by (metis last_in_set)
  then have tr: "last (join_slash segs) \<noteq> CHR ''/''"
    using last_join_slash [OF False nonempty] by simp
  have ne: "join_slash segs \<noteq> []"
    using False nonempty by (cases segs) (simp_all add: join_slash_Cons_not_Nil)
  show ?thesis
    using sp tr ne normalizeArray_plain [OF assms, of False "[]"]
    by (simp add: normalize_def)
qed

lemma path_join_single: "p \<noteq> [] \<Longrightarrow> path_join [p] = normalize p"
  by (simp add: path_join_def)

lemma path_rename_bundle: "path (rename_bundle f n) = path n"
  by (induction n) (simp_all split: option.splits sum.splits)

text \<open>
  C10, as the code has it. \<^verbatim>\<open>ProjectNode.path()\<close> is \<^verbatim>\<open>path.join\<close> of the root's directory
  path alone: the bundle name is not part of it (it is the same for every bundle name),
  and it is the root's path itself when that is an absolute path of plain segments. The
  path of any node is the same under a bundle of another name. \<^verbatim>\<open>BuildFileNode.path()\<close>
  joins the parent's path with the \<^verbatim>\<open>fileRef_comment\<close> field as stored, and a build-file
  node has no click command.
\<close>

theorem project_path_is_root_path:
  "path (ProjectNode bname (RootNode rootPath)) = Inr (path_join [rootPath])
   \<and> path (ProjectNode bname (RootNode rootPath)) = path (ProjectNode other (RootNode rootPath))
   \<and> ((\<forall>s\<in>set segs. plain_segment s) \<longrightarrow>
        path (ProjectNode bname (RootNode (''/'' @ join_slash segs))) = Inr (''/'' @ join_slash segs))
   \<and> path (rename_bundle other n) = path n
   \<and> (path parent = Inr parentPath \<longrightarrow>
        path (BuildFileNode proj data parent) = Inr (path_join [parentPath, fileRef_comment data]))
   \<and> clickCommand (BuildFileNode proj data parent) = None"
proof -
  have plain: "path (ProjectNode bname (RootNode (''/'' @ join_slash segs))) = Inr (''/'' @ join_slash segs)"
    if "\<forall>s\<in>set segs. plain_segment s"
  proof -
    have "path_join [''/'' @ join_slash segs] = normalize (''/'' @ join_slash segs)"
      by (rule path_join_single) simp
    then show ?thesis
      using normalize_plain_absolute [OF that] by simp
  qed
  have rest: "path (ProjectNode bname (RootNode rootPath)) = Inr (path_join [rootPath])"
    "path (ProjectNode bname (RootNode rootPath)) = path (ProjectNode other (RootNode rootPath))"
    "path parent = Inr parentPath \<longrightarrow>
        path (BuildFileNode proj data parent) = Inr (path_join [parentPath, fileRef_comment data])"
    "clickCommand (BuildFileNode proj data parent) = None"
    by simp_all
  show ?thesis
    using plain rest path_rename_bundle [of other n] by blast
qed

theorem project_path_is_root_path_witness:
  "plain_segment ''ws''
   \<and> path (ProjectNode ''App.xcodeproj'' (RootNode ''/ws'')) = Inr ''/ws''
   \<and> path (rename_bundle ''Other.xcodeproj'' demo_sources) = Inr ''/ws/Sources''
   \<and> path demo_sources = Inr ''/ws/Sources''
   \<and> path (BuildFileNode demo_project \<lparr> fileRef = ''F3'', fileRef_comment = ''libz.a'' \<rparr> demo_sources)
       = Inr ''/ws/Sources/libz.a''
   \<and> clickCommand (BuildFileNode demo_project \<lparr> fileRef = ''F3'', fileRef_comment = ''libz.a'' \<rparr> demo_sources)
       = None"
proof -
  have pl: "\<forall>s\<in>set [''ws'']. plain_segment s"
    by (simp add: plain_segment_def)
  have j1: "path_join [''/ws'', ''Sources''] = ''/ws/Sources''"
    and j2: "path_join [''/ws/Sources'', ''libz.a''] = ''/ws/Sources/libz.a''"
    by (simp_all add: path_join_def normalize_def)
  have ps: "path demo_sources = Inr ''/ws/Sources''"
    using demo_app_path by (simp add: demo_sources_def demo_groups j1)
  note t = project_path_is_root_path [where bname = "''App.xcodeproj''" and segs = "[''ws'']"
      and other = "''Other.xcodeproj''" and n = demo_sources and parent = demo_sources
      and parentPath = "''/ws/Sources''" and proj = demo_project
      and data = "\<lparr> fileRef = ''F3'', fileRef_comment = ''libz.a'' \<rparr>"]
  from t pl have a: "path (ProjectNode ''App.xcodeproj'' (RootNode ''/ws'')) = Inr ''/ws''"
    by simp
  from t ps have b: "path (rename_bundle ''Other.xcodeproj'' demo_sources) = Inr ''/ws/Sources''"
    by simp
  from t ps j2 have c: "path (BuildFileNode demo_project \<lparr> fileRef = ''F3'', fileRef_comment = ''libz.a'' \<rparr> demo_sources)
       = Inr ''/ws/Sources/libz.a''"
    by simp
  from t have d: "clickCommand (BuildFileNode demo_project \<lparr> fileRef = ''F3'', fileRef_comment = ''libz.a'' \<rparr> demo_sources)
       = None"
    by simp
  from pl a b ps c d show ?thesis by simp
qed

text \<open>
  The claim as worded (exactly the root's directory path) fails for a root path that is
  not normalised: \<^verbatim>\<open>path.join\<close> removes the doubled slash.
\<close>

theorem project_path_is_root_path_counterexample:
  "path (RootNode ''/ws//app'') = Inr ''/ws//app''
   \<and> path (ProjectNode ''App.xcodeproj'' (RootNode ''/ws//app'')) = Inr ''/ws/app''"
  by (simp add: path_join_def normalize_def)


end
